theory Spec2Isabelle
  imports Main "HOL-Library.Word"
begin

section \<open>The Director binding of motion-game (src/director.cpp)\<close>

text \<open>
  The file binds the scene-graph director of a native 2D engine to a scripting runtime.
  Its own state is three file-level variables: the class object \<open>rb_cDirector\<close>, the
  cached shared handle \<open>mc_director_instance\<close> and the vector of retained scene
  references \<open>director_using_scene\<close>. Everything else is a call into the scripting
  runtime or into the engine; those calls are recorded, in program order, in a journal
  kept beside the three variables.
\<close>

subsection \<open>Values, the engine's interface and the journal\<close>

text \<open>
  \<open>VALUE\<close> is the runtime's object reference, an unsigned machine word. A native datum
  (a pointer, a struct or a number handed over by the engine) is opaque to the binding,
  and so is a foreign exception.
\<close>

type_synonym VALUE = "64 word"

type_synonym native = nat

type_synonym exn = string

text \<open>The member functions of the engine that the binding calls.\<close>

datatype engine_call =
    Cc_getInstance
  | Cc_runWithScene native
  | Cc_replaceScene native
  | Cc_pushScene native
  | Cc_popScene
  | Cc_end
  | Cc_pause
  | Cc_resume
  | Cc_startAnimation
  | Cc_stopAnimation
  | Cc_getVisibleOrigin
  | Cc_getVisibleSize
  | Cc_setDisplayStats bool
  | Cc_isDisplayStats
  | Cc_getContentScaleFactor
  | Cc_setContentScaleFactor native
  | Cc_getOpenGLView
  | Cc_setOpenGLView native
  | Cc_createWithEAGLView native
  | Cc_getEAGLView

text \<open>
  What the binding does to the world outside its three variables: a retain or a release
  of a reference, a call of a member function on a native object, a call of a static
  function of the engine, the wrapping of a native pointer in a fresh runtime object.
\<close>

datatype event =
    Retain VALUE
  | Release VALUE
  | Call native engine_call
  | Static engine_call
  | ObjectNew native VALUE VALUE

text \<open>
  The headers \<open>rubymotion.h\<close> and \<open>motion-game.h\<close> and the engine are not part of the
  source file. Their constants, macros and functions are parameters of the model,
  collected in one record. A function that may raise returns a sum; the engine's answer
  to a call may depend on everything that happened before, so it takes the journal.
\<close>

record env =
  Qnil :: VALUE
  Qtrue :: VALUE
  Qfalse :: VALUE
  rb_mMC :: VALUE
  rb_cObject :: VALUE
  rb_cGLView :: VALUE
  rb_define_class_under :: "VALUE \<Rightarrow> string \<Rightarrow> VALUE \<Rightarrow> VALUE"
  RTEST :: "VALUE \<Rightarrow> bool"
  NUM2DBL :: "VALUE \<Rightarrow> exn + native"
  DBL2NUM :: "native \<Rightarrow> VALUE"
  rb_ccvec2_to_obj :: "native \<Rightarrow> VALUE"
  rb_ccsize_to_obj :: "native \<Rightarrow> VALUE"
  rb_any_to_scene :: "VALUE \<Rightarrow> exn + native"
  DIRECTOR :: "VALUE \<Rightarrow> native"
  rb_cocos2d_object_new :: "event list \<Rightarrow> native \<Rightarrow> VALUE \<Rightarrow> VALUE"
  engine :: "event list \<Rightarrow> native \<Rightarrow> engine_call \<Rightarrow> exn + native"
  engine_static :: "event list \<Rightarrow> engine_call \<Rightarrow> exn + native"

subsection \<open>The binding's state and results\<close>

record director_state =
  rb_cDirector :: VALUE
  mc_director_instance :: VALUE
  director_using_scene :: "VALUE list"
  journal :: "event list"

text \<open>
  A method returns a reference and the new state, or it does not return: a foreign
  exception leaves through it (the state is the one reached when it was raised, since
  the variables are static and the script may rescue the exception and go on), or the
  vector is read or written out of range, which the C++ leaves undefined.
\<close>

datatype error = OutOfRange | Raised exn director_state

type_synonym 'a result = "error + 'a \<times> director_state"

text \<open>
  Modelled from the spec: \<open>rb_retain\<close> and \<open>rb_release\<close> are declared in
  \<open>rubymotion.h\<close>, which is not under src/. They are the manual reference-counting
  operations of the glossary; \<open>rb_retain\<close> hands back the reference it retained, which
  is what the source stores.
\<close>

definition rb_retain :: "VALUE \<Rightarrow> director_state \<Rightarrow> VALUE \<times> director_state" where
  "rb_retain obj st = (obj, st\<lparr>journal := journal st @ [Retain obj]\<rparr>)"

definition rb_release :: "VALUE \<Rightarrow> director_state \<Rightarrow> director_state" where
  "rb_release obj st = st\<lparr>journal := journal st @ [Release obj]\<rparr>"

text \<open>\<open>ptr->f(...)\<close>: the call is journalled, and the engine answers or raises.\<close>

definition call_on :: "env \<Rightarrow> native \<Rightarrow> engine_call \<Rightarrow> director_state \<Rightarrow> native result" where
  "call_on env ptr c st =
     (let st' = st\<lparr>journal := journal st @ [Call ptr c]\<rparr>
      in case engine env (journal st) ptr c of
           Inl x \<Rightarrow> Inl (Raised x st')
         | Inr answer \<Rightarrow> Inr (answer, st'))"

definition call_static :: "env \<Rightarrow> engine_call \<Rightarrow> director_state \<Rightarrow> native result" where
  "call_static env c st =
     (let st' = st\<lparr>journal := journal st @ [Static c]\<rparr>
      in case engine_static env (journal st) c of
           Inl x \<Rightarrow> Inl (Raised x st')
         | Inr answer \<Rightarrow> Inr (answer, st'))"

definition object_new :: "env \<Rightarrow> native \<Rightarrow> VALUE \<Rightarrow> director_state \<Rightarrow> VALUE \<times> director_state" where
  "object_new env ptr klass st =
     (let obj = rb_cocos2d_object_new env (journal st) ptr klass
      in (obj, st\<lparr>journal := journal st @ [ObjectNew ptr klass obj]\<rparr>))"

subsection \<open>Static initialisation and \<open>Init_Director\<close>\<close>

text \<open>
  \<open>std::vector<VALUE> director_using_scene(3)\<close> holds three value-initialised
  elements, that is three zeros (not \<open>Qnil\<close>).
\<close>

definition static_init :: "env \<Rightarrow> director_state" where
  "static_init env =
     \<lparr>rb_cDirector = Qnil env,
      mc_director_instance = Qnil env,
      director_using_scene = replicate 3 0,
      journal = []\<rparr>"

definition Init_Director :: "env \<Rightarrow> director_state \<Rightarrow> director_state" where
  "Init_Director env st =
     st\<lparr>rb_cDirector := rb_define_class_under env (rb_mMC env) ''Director'' (rb_cObject env)\<rparr>"

definition boot :: "env \<Rightarrow> director_state" where
  "boot env = Init_Director env (static_init env)"

subsection \<open>The methods\<close>

definition director_instance :: "env \<Rightarrow> VALUE \<Rightarrow> director_state \<Rightarrow> VALUE result" where
  "director_instance env rcv st =
     (if mc_director_instance st = Qnil env then
        (case call_static env Cc_getInstance st of
           Inl e \<Rightarrow> Inl e
         | Inr (ptr, st1) \<Rightarrow>
             let (obj, st2) = object_new env ptr (rb_cDirector st1) st1;
                 (kept, st3) = rb_retain obj st2;
                 st4 = st3\<lparr>mc_director_instance := kept\<rparr>
             in Inr (mc_director_instance st4, st4))
      else Inr (mc_director_instance st, st))"

definition director_run :: "env \<Rightarrow> VALUE \<Rightarrow> VALUE \<Rightarrow> director_state \<Rightarrow> VALUE result" where
  "director_run env rcv obj st =
     (if director_using_scene st = [] then Inl OutOfRange
      else
        let (kept, st1) = rb_retain obj st;
            st2 = st1\<lparr>director_using_scene := (director_using_scene st1)[0 := kept]\<rparr>
        in case rb_any_to_scene env obj of
             Inl x \<Rightarrow> Inl (Raised x st2)
           | Inr scene \<Rightarrow>
               (case call_on env (DIRECTOR env rcv) (Cc_runWithScene scene) st2 of
                  Inl e \<Rightarrow> Inl e
                | Inr (_, st3) \<Rightarrow> Inr (rcv, st3)))"

definition director_replace :: "env \<Rightarrow> VALUE \<Rightarrow> VALUE \<Rightarrow> director_state \<Rightarrow> VALUE result" where
  "director_replace env rcv obj st =
     (if director_using_scene st = [] then Inl OutOfRange
      else
        let st0 = rb_release (director_using_scene st ! 0) st;
            (kept, st1) = rb_retain obj st0;
            st2 = st1\<lparr>director_using_scene := (director_using_scene st1)[0 := kept]\<rparr>
        in case rb_any_to_scene env obj of
             Inl x \<Rightarrow> Inl (Raised x st2)
           | Inr scene \<Rightarrow>
               (case call_on env (DIRECTOR env rcv) (Cc_replaceScene scene) st2 of
                  Inl e \<Rightarrow> Inl e
                | Inr (_, st3) \<Rightarrow> Inr (rcv, st3)))"

definition director_push :: "env \<Rightarrow> VALUE \<Rightarrow> VALUE \<Rightarrow> director_state \<Rightarrow> VALUE result" where
  "director_push env rcv obj st =
     (let (kept, st1) = rb_retain obj st;
          st2 = st1\<lparr>director_using_scene := director_using_scene st1 @ [kept]\<rparr>
      in case rb_any_to_scene env obj of
           Inl x \<Rightarrow> Inl (Raised x st2)
         | Inr scene \<Rightarrow>
             (case call_on env (DIRECTOR env rcv) (Cc_pushScene scene) st2 of
                Inl e \<Rightarrow> Inl e
              | Inr (_, st3) \<Rightarrow> Inr (rcv, st3)))"

definition director_pop :: "env \<Rightarrow> VALUE \<Rightarrow> director_state \<Rightarrow> VALUE result" where
  "director_pop env rcv st =
     (if director_using_scene st = [] then Inl OutOfRange
      else
        let last_scene = last (director_using_scene st);
            st1 = st\<lparr>director_using_scene := butlast (director_using_scene st)\<rparr>;
            st2 = rb_release last_scene st1
        in case call_on env (DIRECTOR env rcv) Cc_popScene st2 of
             Inl e \<Rightarrow> Inl e
           | Inr (_, st3) \<Rightarrow> Inr (rcv, st3))"

text \<open>
  The loop of \<open>director_end\<close> walks the vector from \<open>begin()\<close> to \<open>end()\<close>; an element
  that is not 0 is released and overwritten with 0. The function returns the elements
  as the loop leaves them, and the state with the releases journalled.
\<close>

fun release_all :: "VALUE list \<Rightarrow> director_state \<Rightarrow> VALUE list \<times> director_state" where
  "release_all [] st = ([], st)"
| "release_all (v # vs) st =
     (if v \<noteq> 0 then
        let (vs', st') = release_all vs (rb_release v st) in (0 # vs', st')
      else
        let (vs', st') = release_all vs st in (v # vs', st'))"

definition director_end :: "env \<Rightarrow> VALUE \<Rightarrow> director_state \<Rightarrow> VALUE result" where
  "director_end env rcv st =
     (let (vs, st1) = release_all (director_using_scene st) st;
          st2 = st1\<lparr>director_using_scene := vs\<rparr>
      in case call_on env (DIRECTOR env rcv) Cc_end st2 of
           Inl e \<Rightarrow> Inl e
         | Inr (_, st3) \<Rightarrow> Inr (rcv, st3))"

definition director_pause :: "env \<Rightarrow> VALUE \<Rightarrow> director_state \<Rightarrow> VALUE result" where
  "director_pause env rcv st =
     (case call_on env (DIRECTOR env rcv) Cc_pause st of
        Inl e \<Rightarrow> Inl e
      | Inr (_, st1) \<Rightarrow> Inr (rcv, st1))"

definition director_resume :: "env \<Rightarrow> VALUE \<Rightarrow> director_state \<Rightarrow> VALUE result" where
  "director_resume env rcv st =
     (case call_on env (DIRECTOR env rcv) Cc_resume st of
        Inl e \<Rightarrow> Inl e
      | Inr (_, st1) \<Rightarrow> Inr (rcv, st1))"

definition director_start_animation :: "env \<Rightarrow> VALUE \<Rightarrow> director_state \<Rightarrow> VALUE result" where
  "director_start_animation env rcv st =
     (case call_on env (DIRECTOR env rcv) Cc_startAnimation st of
        Inl e \<Rightarrow> Inl e
      | Inr (_, st1) \<Rightarrow> Inr (rcv, st1))"

definition director_stop_animation :: "env \<Rightarrow> VALUE \<Rightarrow> director_state \<Rightarrow> VALUE result" where
  "director_stop_animation env rcv st =
     (case call_on env (DIRECTOR env rcv) Cc_stopAnimation st of
        Inl e \<Rightarrow> Inl e
      | Inr (_, st1) \<Rightarrow> Inr (rcv, st1))"

definition director_origin :: "env \<Rightarrow> VALUE \<Rightarrow> director_state \<Rightarrow> VALUE result" where
  "director_origin env rcv st =
     (case call_on env (DIRECTOR env rcv) Cc_getVisibleOrigin st of
        Inl e \<Rightarrow> Inl e
      | Inr (vec, st1) \<Rightarrow> Inr (rb_ccvec2_to_obj env vec, st1))"

definition director_size :: "env \<Rightarrow> VALUE \<Rightarrow> director_state \<Rightarrow> VALUE result" where
  "director_size env rcv st =
     (case call_on env (DIRECTOR env rcv) Cc_getVisibleSize st of
        Inl e \<Rightarrow> Inl e
      | Inr (sz, st1) \<Rightarrow> Inr (rb_ccsize_to_obj env sz, st1))"

definition director_show_stats_set :: "env \<Rightarrow> VALUE \<Rightarrow> VALUE \<Rightarrow> director_state \<Rightarrow> VALUE result" where
  "director_show_stats_set env rcv val st =
     (case call_on env (DIRECTOR env rcv) (Cc_setDisplayStats (RTEST env val)) st of
        Inl e \<Rightarrow> Inl e
      | Inr (_, st1) \<Rightarrow> Inr (val, st1))"

text \<open>The engine's boolean answer is a native datum; any non-zero answer is true.\<close>

definition director_show_stats :: "env \<Rightarrow> VALUE \<Rightarrow> director_state \<Rightarrow> VALUE result" where
  "director_show_stats env rcv st =
     (case call_on env (DIRECTOR env rcv) Cc_isDisplayStats st of
        Inl e \<Rightarrow> Inl e
      | Inr (shown, st1) \<Rightarrow> Inr (if shown \<noteq> 0 then Qtrue env else Qfalse env, st1))"

definition director_content_scale_factor :: "env \<Rightarrow> VALUE \<Rightarrow> director_state \<Rightarrow> VALUE result" where
  "director_content_scale_factor env rcv st =
     (case call_on env (DIRECTOR env rcv) Cc_getContentScaleFactor st of
        Inl e \<Rightarrow> Inl e
      | Inr (factor, st1) \<Rightarrow> Inr (DBL2NUM env factor, st1))"

definition director_content_scale_factor_set ::
  "env \<Rightarrow> VALUE \<Rightarrow> VALUE \<Rightarrow> director_state \<Rightarrow> VALUE result" where
  "director_content_scale_factor_set env rcv scale st =
     (case NUM2DBL env scale of
        Inl x \<Rightarrow> Inl (Raised x st)
      | Inr factor \<Rightarrow>
          (case call_on env (DIRECTOR env rcv) (Cc_setContentScaleFactor factor) st of
             Inl e \<Rightarrow> Inl e
           | Inr (_, st1) \<Rightarrow> Inr (scale, st1)))"

definition director_glview :: "env \<Rightarrow> VALUE \<Rightarrow> director_state \<Rightarrow> VALUE result" where
  "director_glview env rcv st =
     (case call_on env (DIRECTOR env rcv) Cc_getOpenGLView st of
        Inl e \<Rightarrow> Inl e
      | Inr (glview, st1) \<Rightarrow> Inr (object_new env glview (rb_cGLView env) st1))"

text \<open>
  The two internal accessors are compiled on iOS and tvOS only. The casts between a
  reference and a pointer keep the machine word.
\<close>

definition director_view_set :: "env \<Rightarrow> VALUE \<Rightarrow> VALUE \<Rightarrow> director_state \<Rightarrow> VALUE result" where
  "director_view_set env rcv obj st =
     (case call_static env (Cc_createWithEAGLView (unat obj)) st of
        Inl e \<Rightarrow> Inl e
      | Inr (glview, st1) \<Rightarrow>
          (case call_on env (DIRECTOR env rcv) (Cc_setOpenGLView glview) st1 of
             Inl e \<Rightarrow> Inl e
           | Inr (_, st2) \<Rightarrow> Inr (obj, st2)))"

definition director_view_get :: "env \<Rightarrow> VALUE \<Rightarrow> director_state \<Rightarrow> VALUE result" where
  "director_view_get env rcv st =
     (case call_on env (DIRECTOR env rcv) Cc_getOpenGLView st of
        Inl e \<Rightarrow> Inl e
      | Inr (glview, st1) \<Rightarrow>
          (case call_on env glview Cc_getEAGLView st1 of
             Inl e \<Rightarrow> Inl e
           | Inr (view, st2) \<Rightarrow> Inr (of_nat view, st2)))"

subsection \<open>The method table and sequences of calls\<close>

text \<open>
  \<open>Init_Director\<close> registers the functions above under the names the script uses. A
  message is one such name with its argument.
\<close>

datatype message =
    Shared
  | Run VALUE
  | Replace VALUE
  | Push VALUE
  | Pop
  | End
  | Pause
  | Resume
  | Start_animation
  | Stop_animation
  | Origin
  | Size
  | Show_stats_set VALUE
  | Show_stats
  | Content_scale_factor
  | Content_scale_factor_set VALUE
  | Glview
  | Set_glview VALUE
  | Get_glview

fun dispatch :: "env \<Rightarrow> VALUE \<Rightarrow> message \<Rightarrow> director_state \<Rightarrow> VALUE result" where
  "dispatch env rcv Shared st = director_instance env rcv st"
| "dispatch env rcv (Run obj) st = director_run env rcv obj st"
| "dispatch env rcv (Replace obj) st = director_replace env rcv obj st"
| "dispatch env rcv (Push obj) st = director_push env rcv obj st"
| "dispatch env rcv Pop st = director_pop env rcv st"
| "dispatch env rcv End st = director_end env rcv st"
| "dispatch env rcv Pause st = director_pause env rcv st"
| "dispatch env rcv Resume st = director_resume env rcv st"
| "dispatch env rcv Start_animation st = director_start_animation env rcv st"
| "dispatch env rcv Stop_animation st = director_stop_animation env rcv st"
| "dispatch env rcv Origin st = director_origin env rcv st"
| "dispatch env rcv Size st = director_size env rcv st"
| "dispatch env rcv (Show_stats_set val) st = director_show_stats_set env rcv val st"
| "dispatch env rcv Show_stats st = director_show_stats env rcv st"
| "dispatch env rcv Content_scale_factor st = director_content_scale_factor env rcv st"
| "dispatch env rcv (Content_scale_factor_set scale) st =
     director_content_scale_factor_set env rcv scale st"
| "dispatch env rcv Glview st = director_glview env rcv st"
| "dispatch env rcv (Set_glview obj) st = director_view_set env rcv obj st"
| "dispatch env rcv Get_glview st = director_view_get env rcv st"

text \<open>
  The state a call leaves behind: the one it returns with, or the one in which a foreign
  exception left it. After an out-of-range access there is none.
\<close>

fun state_after :: "'a result \<Rightarrow> director_state option" where
  "state_after (Inr (_, st)) = Some st"
| "state_after (Inl (Raised _ st)) = Some st"
| "state_after (Inl OutOfRange) = None"

fun run_calls :: "env \<Rightarrow> VALUE \<Rightarrow> message list \<Rightarrow> director_state \<Rightarrow> director_state option" where
  "run_calls env rcv [] st = Some st"
| "run_calls env rcv (m # ms) st =
     (case state_after (dispatch env rcv m st) of
        None \<Rightarrow> None
      | Some st' \<Rightarrow> run_calls env rcv ms st')"

subsection \<open>Counting calls, and the engine's scene stack\<close>

fun is_push :: "message \<Rightarrow> bool" where
  "is_push (Push _) = True"
| "is_push _ = False"

definition pushes :: "message list \<Rightarrow> nat" where
  "pushes ms = length (filter is_push ms)"

definition pops :: "message list \<Rightarrow> nat" where
  "pops ms = length (filter (\<lambda>m. m = Pop) ms)"

text \<open>
  Modelled from the spec: the engine (\<open>cocos2d::Director\<close>) is not under src/. Its scene
  stack is read off the calls the binding forwarded, in the words of the spec and of the
  method comments of the source: run starts the given scene, push suspends the running
  scene and stacks the new one, replace puts the new scene in the place of the running
  one, pop removes the running scene, and after end no scene is left. The bottom of the
  stack is the head of the list.
\<close>

fun engine_stack_step :: "native list \<Rightarrow> event \<Rightarrow> native list" where
  "engine_stack_step stack (Call _ (Cc_runWithScene scene)) = stack @ [scene]"
| "engine_stack_step stack (Call _ (Cc_pushScene scene)) = stack @ [scene]"
| "engine_stack_step stack (Call _ (Cc_replaceScene scene)) = butlast stack @ [scene]"
| "engine_stack_step stack (Call _ Cc_popScene) = butlast stack"
| "engine_stack_step stack (Call _ Cc_end) = []"
| "engine_stack_step stack _ = stack"

definition native_scene_stack :: "event list \<Rightarrow> native list" where
  "native_scene_stack evs = foldl engine_stack_step [] evs"

subsection \<open>A concrete environment\<close>

text \<open>
  An environment in which nothing raises: the constants are those of a runtime whose
  false is 0, true is 2 and nil is 4; a reference and the pointer it wraps are the same
  number; the engine answers 0 to every member call. It serves to run the methods on
  concrete inputs.
\<close>

definition quiet_env :: env where
  "quiet_env =
     \<lparr>Qnil = 4, Qtrue = 2, Qfalse = 0, rb_mMC = 16, rb_cObject = 24, rb_cGLView = 32,
      rb_define_class_under = (\<lambda>_ _ _. 40),
      RTEST = (\<lambda>v. v \<noteq> 0 \<and> v \<noteq> 4),
      NUM2DBL = (\<lambda>v. Inr (unat v)),
      DBL2NUM = of_nat,
      rb_ccvec2_to_obj = of_nat,
      rb_ccsize_to_obj = of_nat,
      rb_any_to_scene = (\<lambda>v. Inr (unat v)),
      DIRECTOR = unat,
      rb_cocos2d_object_new = (\<lambda>_ ptr _. of_nat ptr),
      engine = (\<lambda>_ _ _. Inr 0),
      engine_static = (\<lambda>_ _. Inr 48)\<rparr>"

text \<open>
  The same environment, except that the scene coercion refuses false, true and nil (the
  references 0, 2 and 4).
\<close>

definition picky_env :: env where
  "picky_env = quiet_env\<lparr>rb_any_to_scene :=
     (\<lambda>v. if v = 0 \<or> v = 2 \<or> v = 4 then Inl ''expected Scene object'' else Inr (unat v))\<rparr>"

text \<open>The quiet environment again, except that the engine raises when it is asked to pause.\<close>

definition faulty_env :: env where
  "faulty_env = quiet_env\<lparr>engine :=
     (\<lambda>_ _ c. if c = Cc_pause then Inl ''engine failure'' else Inr 0)\<rparr>"

subsection \<open>Calls in step with the engine\<close>

text \<open>
  A scene argument is in order when it is not the reference 0, which marks an empty
  slot of the vector, and the scene coercion accepts it.
\<close>

definition scene_ok :: "env \<Rightarrow> VALUE \<Rightarrow> bool" where
  "scene_ok env obj =
     (obj \<noteq> 0 \<and> (case rb_any_to_scene env obj of Inl _ \<Rightarrow> False | Inr _ \<Rightarrow> True))"

text \<open>
  A call is in step with the engine, in a given state of the binding, when its scene
  argument is in order and: run is called while every slot is 0; replace is called while
  every slot after slot 0 is 0; pop is called while the last slot is not 0, or while
  every slot is 0. A sequence of calls is orderly from a state when each of its calls is
  in step in the state in which it is made, and none indexes the vector out of range.
\<close>

fun in_step :: "env \<Rightarrow> message \<Rightarrow> director_state \<Rightarrow> bool" where
  "in_step env (Run obj) st =
     (scene_ok env obj \<and> list_all (\<lambda>v. v = 0) (director_using_scene st))"
| "in_step env (Replace obj) st =
     (scene_ok env obj \<and> list_all (\<lambda>v. v = 0) (tl (director_using_scene st)))"
| "in_step env (Push obj) st = scene_ok env obj"
| "in_step env Pop st =
     (list_all (\<lambda>v. v = 0) (director_using_scene st) \<or> last (director_using_scene st) \<noteq> 0)"
| "in_step env _ st = True"

fun orderly :: "env \<Rightarrow> VALUE \<Rightarrow> message list \<Rightarrow> director_state \<Rightarrow> bool" where
  "orderly env rcv [] st = True"
| "orderly env rcv (m # ms) st =
     (in_step env m st \<and>
      (case state_after (dispatch env rcv m st) of
         None \<Rightarrow> False
       | Some st' \<Rightarrow> orderly env rcv ms st'))"

subsection \<open>Foreign calls that were answered\<close>


subsection \<open>Two invariants\<close>

text \<open>
  The vector mirrors the engine's stack when its entries other than 0, in order and
  coerced to scenes, are the scenes of the stack from bottom to top.
\<close>

definition mirrors :: "env \<Rightarrow> director_state \<Rightarrow> bool" where
  "mirrors env st \<longleftrightarrow>
     map (rb_any_to_scene env) (filter (\<lambda>v. v \<noteq> 0) (director_using_scene st))
       = map Inr (native_scene_stack (journal st))"


section \<open>What each method does to the state\<close>

lemmas prim_defs = rb_retain_def rb_release_def call_on_def call_static_def object_new_def

lemmas method_defs =
  director_instance_def director_run_def director_replace_def director_push_def
  director_pop_def director_end_def director_pause_def director_resume_def
  director_start_animation_def director_stop_animation_def director_origin_def
  director_size_def director_show_stats_set_def director_show_stats_def
  director_content_scale_factor_def director_content_scale_factor_set_def
  director_glview_def director_view_set_def director_view_get_def

lemmas run_defs = method_defs prim_defs quiet_env_def picky_env_def faulty_env_def boot_def
  Init_Director_def static_init_def Let_def pushes_def pops_def native_scene_stack_def
  scene_ok_def numeral_3_eq_3

lemma release_all_eq:
  "release_all vs st =
     (map (\<lambda>_. 0) vs, st\<lparr>journal := journal st @ map Release (filter (\<lambda>v. v \<noteq> 0) vs)\<rparr>)"
  by (induction vs arbitrary: st) (simp_all add: rb_release_def)

lemma director_run_effect:
  "director_using_scene st \<noteq> [] \<Longrightarrow>
   state_after (director_run env rcv obj st) =
     Some (st\<lparr>director_using_scene := (director_using_scene st)[0 := obj],
              journal := journal st @ Retain obj #
                (case rb_any_to_scene env obj of
                   Inl _ \<Rightarrow> []
                 | Inr scene \<Rightarrow> [Call (DIRECTOR env rcv) (Cc_runWithScene scene)])\<rparr>)"
  by (simp add: director_run_def prim_defs Let_def split: sum.splits)

lemma director_replace_effect:
  "director_using_scene st \<noteq> [] \<Longrightarrow>
   state_after (director_replace env rcv obj st) =
     Some (st\<lparr>director_using_scene := (director_using_scene st)[0 := obj],
              journal := journal st @ Release (director_using_scene st ! 0) # Retain obj #
                (case rb_any_to_scene env obj of
                   Inl _ \<Rightarrow> []
                 | Inr scene \<Rightarrow> [Call (DIRECTOR env rcv) (Cc_replaceScene scene)])\<rparr>)"
  by (simp add: director_replace_def prim_defs Let_def split: sum.splits)

lemma director_push_effect:
  "state_after (director_push env rcv obj st) =
     Some (st\<lparr>director_using_scene := director_using_scene st @ [obj],
              journal := journal st @ Retain obj #
                (case rb_any_to_scene env obj of
                   Inl _ \<Rightarrow> []
                 | Inr scene \<Rightarrow> [Call (DIRECTOR env rcv) (Cc_pushScene scene)])\<rparr>)"
  by (simp add: director_push_def prim_defs Let_def split: sum.splits)

lemma director_pop_effect:
  "director_using_scene st \<noteq> [] \<Longrightarrow>
   state_after (director_pop env rcv st) =
     Some (st\<lparr>director_using_scene := butlast (director_using_scene st),
              journal := journal st @
                [Release (last (director_using_scene st)), Call (DIRECTOR env rcv) Cc_popScene]\<rparr>)"
  by (simp add: director_pop_def prim_defs Let_def split: sum.splits)

lemma director_end_effect:
  "state_after (director_end env rcv st) =
     Some (st\<lparr>director_using_scene := map (\<lambda>_. 0) (director_using_scene st),
              journal := journal st @ map Release (filter (\<lambda>v. v \<noteq> 0) (director_using_scene st))
                 @ [Call (DIRECTOR env rcv) Cc_end]\<rparr>)"
  by (simp add: director_end_def release_all_eq prim_defs Let_def split: sum.splits)

text \<open>The three methods that index the vector leave it undefined exactly when it is empty.\<close>

lemma out_of_range_iff:
  "director_run env rcv obj st = Inl OutOfRange \<longleftrightarrow> director_using_scene st = []"
  "director_replace env rcv obj st = Inl OutOfRange \<longleftrightarrow> director_using_scene st = []"
  "director_pop env rcv st = Inl OutOfRange \<longleftrightarrow> director_using_scene st = []"
  by (simp_all add: director_run_def director_replace_def director_pop_def prim_defs Let_def
      split: sum.splits)

lemma out_of_range:
  assumes "director_using_scene st = []"
  shows "director_run env rcv obj st = Inl OutOfRange"
    and "director_replace env rcv obj st = Inl OutOfRange"
    and "director_pop env rcv st = Inl OutOfRange"
  using assms by (simp_all add: out_of_range_iff)

text \<open>The vector after one call, for every message of the method table.\<close>

lemma dispatch_scenes:
  assumes "state_after (dispatch env rcv m st) = Some st'"
  shows "director_using_scene st' =
     (case m of
        Run obj \<Rightarrow> (director_using_scene st)[0 := obj]
      | Replace obj \<Rightarrow> (director_using_scene st)[0 := obj]
      | Push obj \<Rightarrow> director_using_scene st @ [obj]
      | Pop \<Rightarrow> butlast (director_using_scene st)
      | End \<Rightarrow> map (\<lambda>_. 0) (director_using_scene st)
      | _ \<Rightarrow> director_using_scene st)"
proof (cases m)
  case (Run obj)
  with assms show ?thesis
    by (cases "director_using_scene st = []") (auto simp: director_run_effect out_of_range)
next
  case (Replace obj)
  with assms show ?thesis
    by (cases "director_using_scene st = []") (auto simp: director_replace_effect out_of_range)
next
  case (Push obj)
  with assms show ?thesis by (auto simp: director_push_effect)
next
  case Pop
  with assms show ?thesis
    by (cases "director_using_scene st = []") (auto simp: director_pop_effect out_of_range)
next
  case End
  with assms show ?thesis by (auto simp: director_end_effect)
qed (use assms in \<open>auto simp: method_defs prim_defs Let_def split: sum.splits if_splits prod.splits\<close>)

lemma dispatch_nonempty:
  assumes "state_after (dispatch env rcv m st) = Some st'"
    and "m = Pop \<or> m = Run obj \<or> m = Replace obj"
  shows "director_using_scene st \<noteq> []"
  using assms by (auto simp: out_of_range)

lemma dispatch_length:
  assumes "state_after (dispatch env rcv m st) = Some st'"
  shows "length (director_using_scene st') + pops [m] = length (director_using_scene st) + pushes [m]"
proof (cases m)
  case Pop
  with assms dispatch_nonempty[OF assms, of undefined] show ?thesis
    using dispatch_scenes[OF assms] by (simp add: pops_def pushes_def)
qed (use dispatch_scenes[OF assms] in \<open>simp_all add: pops_def pushes_def\<close>)


section \<open>Sequences of calls\<close>

lemma run_calls_append:
  "run_calls env rcv (ms @ ms') st =
     (case run_calls env rcv ms st of None \<Rightarrow> None | Some s \<Rightarrow> run_calls env rcv ms' s)"
  by (induction ms arbitrary: st) (simp_all split: option.splits)

lemma run_calls_prefix:
  assumes "run_calls env rcv ms st = Some st'" and "n \<le> length ms"
  shows "\<exists>s. run_calls env rcv (take n ms) st = Some s"
proof -
  have "run_calls env rcv (take n ms @ drop n ms) st = Some st'"
    using assms(1) by simp
  then show ?thesis
    unfolding run_calls_append by (simp split: option.splits)
qed

lemma run_calls_length:
  "run_calls env rcv ms st = Some st' \<Longrightarrow>
   length (director_using_scene st') + pops ms = length (director_using_scene st) + pushes ms"
proof (induction ms arbitrary: st)
  case Nil
  then show ?case by (simp add: pops_def pushes_def)
next
  case (Cons m ms)
  then obtain s where s: "state_after (dispatch env rcv m st) = Some s"
    and rest: "run_calls env rcv ms s = Some st'"
    by (auto split: option.splits)
  from dispatch_length[OF s] Cons.IH[OF rest] show ?case
    by (auto simp: pops_def pushes_def split: if_splits)
qed

lemma run_calls_snoc_End:
  assumes "run_calls env rcv (ms @ [End]) st = Some st'"
  shows "director_using_scene st' = replicate (length (director_using_scene st')) 0"
proof -
  from assms obtain s where "state_after (director_end env rcv s) = Some st'"
    by (auto simp: run_calls_append split: option.splits)
  then show ?thesis
    by (auto simp: director_end_effect map_replicate_const)
qed


lemma boot_scenes: "director_using_scene (boot env) = [0, 0, 0]"
  by (simp add: boot_def Init_Director_def static_init_def numeral_3_eq_3)

section \<open>Orderly sequences keep the vector in step with the engine's stack\<close>

lemma nss_append:
  "native_scene_stack (j @ new) = foldl engine_stack_step (native_scene_stack j) new"
  by (simp add: native_scene_stack_def)

lemma filter_update_root:
  assumes "xs \<noteq> []" and "list_all (\<lambda>v. v = 0) (tl xs)" and "obj \<noteq> (0 :: VALUE)"
  shows "filter (\<lambda>v. v \<noteq> 0) (xs[0 := obj]) = [obj]"
proof -
  from assms(1) obtain x rest where xs: "xs = x # rest" by (cases xs) auto
  with assms(2) have "filter (\<lambda>v. v \<noteq> 0) rest = []"
    by (simp add: list_all_iff filter_empty_conv)
  with xs assms(3) show ?thesis by simp
qed

lemma filter_root_short:
  assumes "list_all (\<lambda>v. v = 0) (tl xs)"
  shows "length (filter (\<lambda>v. v \<noteq> (0 :: VALUE)) xs) \<le> 1"
proof (cases xs)
  case Nil
  then show ?thesis by simp
next
  case (Cons x rest)
  with assms have "filter (\<lambda>v. v \<noteq> 0) rest = []"
    by (simp add: list_all_iff filter_empty_conv)
  with Cons show ?thesis by simp
qed

lemma filter_butlast_live:
  assumes "xs \<noteq> []" and "last xs \<noteq> (0 :: VALUE)"
  shows "filter (\<lambda>v. v \<noteq> 0) (butlast xs) = butlast (filter (\<lambda>v. v \<noteq> 0) xs)"
proof -
  have "filter (\<lambda>v. v \<noteq> 0) (butlast xs @ [last xs])
      = filter (\<lambda>v. v \<noteq> 0) (butlast xs) @ [last xs]"
    using assms(2) by simp
  with assms(1) have "filter (\<lambda>v. v \<noteq> 0) xs = filter (\<lambda>v. v \<noteq> 0) (butlast xs) @ [last xs]"
    by simp
  then show ?thesis by simp
qed

lemma filter_all_zero:
  "list_all (\<lambda>v. v = 0) xs \<Longrightarrow> filter (\<lambda>v. v \<noteq> (0 :: VALUE)) xs = []"
  by (simp add: list_all_iff filter_empty_conv)

lemma dispatch_mirrors:
  assumes step: "state_after (dispatch env rcv m st) = Some st'"
    and ord: "in_step env m st"
    and inv: "mirrors env st"
  shows "mirrors env st'"
proof (cases m)
  case (Run obj)
  from step Run have ne: "director_using_scene st \<noteq> []"
    using dispatch_nonempty by blast
  from ord Run obtain scene where ok: "obj \<noteq> 0" "rb_any_to_scene env obj = Inr scene"
    and zeros: "list_all (\<lambda>v. v = 0) (director_using_scene st)"
    by (auto simp: scene_ok_def split: sum.splits)
  from inv filter_all_zero[OF zeros] have empty: "native_scene_stack (journal st) = []"
    by (simp add: mirrors_def)
  from zeros ne have "list_all (\<lambda>v. v = 0) (tl (director_using_scene st))"
    by (cases "director_using_scene st") auto
  from filter_update_root[OF ne this ok(1)] step Run ne ok empty show ?thesis
    by (auto simp: director_run_effect mirrors_def nss_append)
next
  case (Replace obj)
  from step Replace have ne: "director_using_scene st \<noteq> []"
    using dispatch_nonempty by blast
  from ord Replace obtain scene where ok: "obj \<noteq> 0" "rb_any_to_scene env obj = Inr scene"
    and zeros: "list_all (\<lambda>v. v = 0) (tl (director_using_scene st))"
    by (auto simp: scene_ok_def split: sum.splits)
  have "length (native_scene_stack (journal st))
      = length (filter (\<lambda>v. v \<noteq> 0) (director_using_scene st))"
    using inv unfolding mirrors_def by (metis length_map)
  with filter_root_short[OF zeros] have "length (native_scene_stack (journal st)) \<le> 1"
    by simp
  then have "butlast (native_scene_stack (journal st)) = []"
    by (cases "native_scene_stack (journal st)") auto
  with filter_update_root[OF ne zeros ok(1)] step Replace ne ok show ?thesis
    by (auto simp: director_replace_effect mirrors_def nss_append)
next
  case (Push obj)
  from ord Push obtain scene where ok: "obj \<noteq> 0" "rb_any_to_scene env obj = Inr scene"
    by (auto simp: scene_ok_def split: sum.splits)
  with step Push inv show ?thesis
    by (auto simp: director_push_effect mirrors_def nss_append)
next
  case Pop
  from step Pop have ne: "director_using_scene st \<noteq> []"
    using dispatch_nonempty by blast
  show ?thesis
  proof (cases "last (director_using_scene st) \<noteq> 0")
    case True
    from filter_butlast_live[OF ne True] step Pop ne inv show ?thesis
      by (auto simp: director_pop_effect mirrors_def nss_append map_butlast)
  next
    case False
    with ord Pop have zeros: "list_all (\<lambda>v. v = 0) (director_using_scene st)" by simp
    then have "list_all (\<lambda>v. v = 0) (butlast (director_using_scene st))"
      by (auto simp: list_all_iff dest: in_set_butlastD)
    from filter_all_zero[OF this] filter_all_zero[OF zeros] step Pop ne inv show ?thesis
      by (auto simp: director_pop_effect mirrors_def nss_append)
  qed
next
  case End
  have "foldl engine_stack_step s (map Release vs) = s" for s vs
    by (induction vs) auto
  with step End show ?thesis
    by (auto simp: director_end_effect mirrors_def nss_append filter_empty_conv)
qed (use step inv in \<open>auto simp: method_defs prim_defs Let_def mirrors_def nss_append
       split: sum.splits if_splits prod.splits\<close>)

lemma orderly_mirrors:
  "run_calls env rcv ms st = Some st' \<Longrightarrow> orderly env rcv ms st \<Longrightarrow> mirrors env st \<Longrightarrow>
   mirrors env st'"
proof (induction ms arbitrary: st)
  case Nil
  then show ?case by simp
next
  case (Cons m ms)
  then obtain s where s: "state_after (dispatch env rcv m st) = Some s"
    and rest: "run_calls env rcv ms s = Some st'"
    by (auto split: option.splits)
  from Cons.prems(2) s have ord: "in_step env m st" and more: "orderly env rcv ms s"
    by auto
  from Cons.IH[OF rest more dispatch_mirrors[OF s ord Cons.prems(3)]] show ?case .
qed

lemma boot_mirrors: "mirrors env (boot env)"
  by (simp add: mirrors_def boot_def Init_Director_def static_init_def native_scene_stack_def)

lemma run_calls_snoc_End_stack:
  assumes "run_calls env rcv (ms @ [End]) st = Some st'"
  shows "native_scene_stack (journal st') = []"
proof -
  from assms obtain s where "state_after (director_end env rcv s) = Some st'"
    by (auto simp: run_calls_append split: option.splits)
  then show ?thesis
    by (auto simp: director_end_effect nss_append)
qed

section \<open>Retains cover releases\<close>








section \<open>How a call ends\<close>




section \<open>The claims\<close>

subsection \<open>C1: the retained list and the engine's scene stack\<close>

text \<open>
  C1 as stated fails, in the length of the list, after \<open>end\<close>, and in the scenes held.
  \<^item> From the initial state, \<open>end\<close> leaves the vector \<open>[0, 0, 0]\<close>: the loop overwrites
    each element with 0 and removes none, so the list is not empty after \<open>end\<close>.
  \<^item> After run 5, push 9, replace 7 the vector is \<open>[7, 0, 0, 9]\<close>: replace has released
    scene 5 and put 7 in slot 0, while the engine has put 7 in the place of the running
    scene 9 and still holds 5 below it. The binding holds 7 and 9, the engine 5 and 7.
  \<^item> After run 5, run 7 the vector holds 7 only and the engine's stack 5 and 7.
  \<^item> After run 5, pop the vector is \<open>[5, 0]\<close>: pop removed an empty slot, and the engine
    removed scene 5.
  \<^item> A pushed reference that the scene coercion refuses (2, in the picky environment)
    is appended to the vector and never reaches the engine.
  \<^item> A pushed reference 0 reaches the engine but reads as an empty slot in the vector.
\<close>

theorem retained_list_not_engine_stack_counterexample:
  "map_option director_using_scene (run_calls quiet_env 1 [End] (boot quiet_env)) = Some [0, 0, 0]
   \<and> [0, 0, 0] \<noteq> ([] :: VALUE list)
   \<and> map_option director_using_scene
        (run_calls quiet_env 1 [Run 5, Push 9, Replace 7] (boot quiet_env)) = Some [7, 0, 0, 9]
   \<and> map_option (\<lambda>s. native_scene_stack (journal s))
        (run_calls quiet_env 1 [Run 5, Push 9, Replace 7] (boot quiet_env)) = Some [5, 7]
   \<and> map_option director_using_scene
        (run_calls quiet_env 1 [Run 5, Run 7] (boot quiet_env)) = Some [7, 0, 0]
   \<and> map_option (\<lambda>s. native_scene_stack (journal s))
        (run_calls quiet_env 1 [Run 5, Run 7] (boot quiet_env)) = Some [5, 7]
   \<and> map_option director_using_scene
        (run_calls quiet_env 1 [Run 5, Pop] (boot quiet_env)) = Some [5, 0]
   \<and> map_option (\<lambda>s. native_scene_stack (journal s))
        (run_calls quiet_env 1 [Run 5, Pop] (boot quiet_env)) = Some []
   \<and> map_option director_using_scene
        (run_calls picky_env 1 [Push 2] (boot picky_env)) = Some [0, 0, 0, 2]
   \<and> map_option (\<lambda>s. native_scene_stack (journal s))
        (run_calls picky_env 1 [Push 2] (boot picky_env)) = Some []
   \<and> map_option director_using_scene
        (run_calls quiet_env 1 [Push 0] (boot quiet_env)) = Some [0, 0, 0, 0]
   \<and> map_option (\<lambda>s. native_scene_stack (journal s))
        (run_calls quiet_env 1 [Push 0] (boot quiet_env)) = Some [0]"
  by (simp add: run_defs)

text \<open>
  C1, amended. Take any sequence of calls made from the initial state in which no call
  indexes the vector out of range, and any \<open>n\<close>; after its first \<open>n\<close> calls:
  \<^item> the vector has length 3 + pushes - pops, counting the pushes and pops made so far
    (the three pre-allocated slots are always counted);
  \<^item> if the last call was \<open>end\<close>, every entry of the vector is 0 and the engine's stack
    is empty; the vector has kept its length;
  \<^item> if the calls so far were orderly (every scene passed a reference other than 0 that
    the coercion accepts, run called only while every slot was 0, replace only while
    every slot after slot 0 was 0, pop only while the last slot was not 0 or every slot
    was 0), then the entries of the vector other than 0 are, in the same order, the
    scenes of the engine's stack from bottom to top.
\<close>

theorem retained_list_and_engine_stack:
  assumes "run_calls env rcv ms (boot env) = Some st" and "n \<le> length ms"
  shows "\<exists>s. run_calls env rcv (take n ms) (boot env) = Some s
     \<and> length (director_using_scene s) + pops (take n ms) = 3 + pushes (take n ms)
     \<and> (0 < n \<and> ms ! (n - 1) = End \<longrightarrow>
          director_using_scene s = replicate (length (director_using_scene s)) 0
          \<and> native_scene_stack (journal s) = [])
     \<and> (orderly env rcv (take n ms) (boot env) \<longrightarrow>
          map (rb_any_to_scene env) (filter (\<lambda>v. v \<noteq> 0) (director_using_scene s))
            = map Inr (native_scene_stack (journal s)))"
proof -
  from run_calls_prefix[OF assms] obtain s
    where s: "run_calls env rcv (take n ms) (boot env) = Some s" by blast
  have len: "length (director_using_scene s) + pops (take n ms) = 3 + pushes (take n ms)"
    using run_calls_length[OF s] by (simp add: boot_scenes)
  have zero: "director_using_scene s = replicate (length (director_using_scene s)) 0
      \<and> native_scene_stack (journal s) = []"
    if "0 < n" and "ms ! (n - 1) = End"
  proof -
    from that assms(2) have "take n ms = take (n - 1) ms @ [End]"
      by (metis Suc_pred' Suc_le_lessD take_Suc_conv_app_nth)
    with s show ?thesis
      using run_calls_snoc_End run_calls_snoc_End_stack by metis
  qed
  have mirror: "map (rb_any_to_scene env) (filter (\<lambda>v. v \<noteq> 0) (director_using_scene s))
            = map Inr (native_scene_stack (journal s))"
    if "orderly env rcv (take n ms) (boot env)"
    using orderly_mirrors[OF s that boot_mirrors] by (simp add: mirrors_def)
  from s len zero mirror show ?thesis by blast
qed

theorem retained_list_and_engine_stack_witness:
  "run_calls quiet_env 1 [Run 5, Push 9, Pop, Replace 7, Push 9, End] (boot quiet_env) =
     Some \<lparr>rb_cDirector = 40, mc_director_instance = 4, director_using_scene = [0, 0, 0, 0],
           journal = [Retain 5, Call 1 (Cc_runWithScene 5), Retain 9, Call 1 (Cc_pushScene 9),
                      Release 9, Call 1 Cc_popScene, Release 5, Retain 7,
                      Call 1 (Cc_replaceScene 7), Retain 9, Call 1 (Cc_pushScene 9),
                      Release 7, Release 9, Call 1 Cc_end]\<rparr>
   \<and> (5 :: nat) \<le> length [Run 5, Push 9, Pop, Replace 7, Push 9, End]
   \<and> orderly quiet_env 1 (take 5 [Run 5, Push 9, Pop, Replace 7, Push 9, End]) (boot quiet_env)
   \<and> map_option director_using_scene
        (run_calls quiet_env 1 (take 5 [Run 5, Push 9, Pop, Replace 7, Push 9, End]) (boot quiet_env))
      = Some [7, 0, 0, 9]
   \<and> map_option (\<lambda>s. native_scene_stack (journal s))
        (run_calls quiet_env 1 (take 5 [Run 5, Push 9, Pop, Replace 7, Push 9, End]) (boot quiet_env))
      = Some [7, 9]
   \<and> length [7, 0, 0, 9 :: VALUE] + pops (take 5 [Run 5, Push 9, Pop, Replace 7, Push 9, End])
      = 3 + pushes (take 5 [Run 5, Push 9, Pop, Replace 7, Push 9, End])"
  using retained_list_and_engine_stack [of quiet_env 1 "[Run 5, Push 9, Pop, Replace 7, Push 9, End]"
     "\<lparr>rb_cDirector = 40, mc_director_instance = 4, director_using_scene = [0, 0, 0, 0],
           journal = [Retain 5, Call 1 (Cc_runWithScene 5), Retain 9, Call 1 (Cc_pushScene 9),
                      Release 9, Call 1 Cc_popScene, Release 5, Retain 7,
                      Call 1 (Cc_replaceScene 7), Retain 9, Call 1 (Cc_pushScene 9),
                      Release 7, Release 9, Call 1 Cc_end]\<rparr>" 5]
  by (simp add: run_defs)

subsection \<open>C2: run and replace write slot 0\<close>

text \<open>
  C2 as stated fails. \<open>director_run\<close> has no \<open>rb_release\<close>: a second \<open>run\<close> overwrites
  slot 0 and the scene retained there before is never released. And not every state of
  the vector has a slot 0: on the empty vector \<open>replace\<close> (and \<open>run\<close>) index out of
  range.
\<close>

theorem run_keeps_old_root_counterexample:
  "run_calls quiet_env 1 [Run 5, Run 7] (boot quiet_env) =
     Some \<lparr>rb_cDirector = 40, mc_director_instance = 4, director_using_scene = [7, 0, 0],
           journal = [Retain 5, Call 1 (Cc_runWithScene 5), Retain 7, Call 1 (Cc_runWithScene 7)]\<rparr>
   \<and> Release 5 \<notin> set [Retain 5, Call 1 (Cc_runWithScene 5), Retain 7, Call 1 (Cc_runWithScene 7)]
   \<and> director_replace quiet_env 1 7
        \<lparr>rb_cDirector = 40, mc_director_instance = 4, director_using_scene = [],
         journal = []\<rparr> = Inl OutOfRange"
  by (simp add: run_defs)

text \<open>
  C2, amended. In every state whose vector is not empty: \<open>replace\<close> first releases the
  reference held in slot 0, then retains the new scene and stores it in slot 0, and
  only then forwards \<open>replaceScene\<close> to the engine; \<open>run\<close> retains the new scene and
  stores it in slot 0, and only then forwards \<open>runWithScene\<close>. The forwarding takes
  place when the scene coercion succeeds. Neither method changes another slot: the new
  vector is the old one updated at index 0.
\<close>

theorem root_slot_on_run_and_replace:
  assumes "director_using_scene st \<noteq> []"
  shows "(\<exists>st'. state_after (director_replace env rcv obj st) = Some st'
            \<and> director_using_scene st' = (director_using_scene st)[0 := obj]
            \<and> journal st' = journal st @
                 Release (director_using_scene st ! 0) # Retain obj #
                 (case rb_any_to_scene env obj of
                    Inl _ \<Rightarrow> []
                  | Inr scene \<Rightarrow> [Call (DIRECTOR env rcv) (Cc_replaceScene scene)]))
     \<and> (\<exists>st' before. state_after (director_run env rcv obj st) = Some st'
            \<and> director_using_scene st' = (director_using_scene st)[0 := obj]
            \<and> journal st' = journal st @ before @
                 Retain obj #
                 (case rb_any_to_scene env obj of
                    Inl _ \<Rightarrow> []
                  | Inr scene \<Rightarrow> [Call (DIRECTOR env rcv) (Cc_runWithScene scene)]))"
proof -
  have "\<exists>before. journal st @ Retain obj # fwd = journal st @ before @ Retain obj # fwd" for fwd
    by (rule exI[of _ "[]"]) simp
  with assms show ?thesis
    by (simp add: director_replace_effect director_run_effect)
qed

theorem root_slot_on_run_and_replace_witness:
  "[5, 0, 0, 9] \<noteq> ([] :: VALUE list)
   \<and> state_after (director_replace quiet_env 1 7
        \<lparr>rb_cDirector = 40, mc_director_instance = 4, director_using_scene = [5, 0, 0, 9],
         journal = []\<rparr>)
     = Some \<lparr>rb_cDirector = 40, mc_director_instance = 4, director_using_scene = [7, 0, 0, 9],
         journal = [Release 5, Retain 7, Call 1 (Cc_replaceScene 7)]\<rparr>"
  using root_slot_on_run_and_replace [of
      "\<lparr>rb_cDirector = 40, mc_director_instance = 4, director_using_scene = [5, 0, 0, 9],
        journal = []\<rparr>" quiet_env 1 7]
  by (simp add: run_defs)

subsection \<open>C3: push\<close>

text \<open>
  C3. Push, in every state: the call leaves a state (it never indexes the vector); the
  vector is the old one with the pushed scene appended, so every existing entry is
  where it was; the journal gains one retain of that scene, then the forwarded
  \<open>pushScene\<close> when the scene coercion succeeds, and no release.
\<close>

theorem push_appends_one_retained:
  "\<exists>st'. state_after (director_push env rcv obj st) = Some st'
     \<and> director_using_scene st' = director_using_scene st @ [obj]
     \<and> journal st' = journal st @ Retain obj #
           (case rb_any_to_scene env obj of
              Inl _ \<Rightarrow> []
            | Inr scene \<Rightarrow> [Call (DIRECTOR env rcv) (Cc_pushScene scene)])
     \<and> (\<forall>v. Release v \<notin> set (drop (length (journal st)) (journal st')))
     \<and> take (length (director_using_scene st)) (director_using_scene st') = director_using_scene st"
  by (simp add: director_push_effect split: sum.splits)

theorem push_appends_one_retained_witness:
  "state_after (director_push quiet_env 1 9
      \<lparr>rb_cDirector = 40, mc_director_instance = 4, director_using_scene = [5, 0, 0],
       journal = [Retain 5, Call 1 (Cc_runWithScene 5)]\<rparr>)
   = Some \<lparr>rb_cDirector = 40, mc_director_instance = 4, director_using_scene = [5, 0, 0, 9],
       journal = [Retain 5, Call 1 (Cc_runWithScene 5), Retain 9, Call 1 (Cc_pushScene 9)]\<rparr>"
  using push_appends_one_retained [of quiet_env 1 9
      "\<lparr>rb_cDirector = 40, mc_director_instance = 4, director_using_scene = [5, 0, 0],
        journal = [Retain 5, Call 1 (Cc_runWithScene 5)]\<rparr>"]
  by (simp add: director_push_effect quiet_env_def)

subsection \<open>C4: pop\<close>

text \<open>
  C4. Pop, on a non-empty vector: the last entry is released and removed, the length
  drops by exactly one, the entries below keep their values, and \<open>popScene\<close> is
  forwarded to the engine after the release.
\<close>

theorem pop_releases_and_removes_top:
  assumes "director_using_scene st \<noteq> []"
  shows "\<exists>st'. state_after (director_pop env rcv st) = Some st'
     \<and> director_using_scene st' = butlast (director_using_scene st)
     \<and> length (director_using_scene st') + 1 = length (director_using_scene st)
     \<and> (\<forall>i < length (director_using_scene st').
           director_using_scene st' ! i = director_using_scene st ! i)
     \<and> journal st' = journal st @
           [Release (last (director_using_scene st)), Call (DIRECTOR env rcv) Cc_popScene]"
  using assms by (simp add: director_pop_effect nth_butlast)

theorem pop_releases_and_removes_top_witness:
  "[5, 0, 0, 9] \<noteq> ([] :: VALUE list)
   \<and> state_after (director_pop quiet_env 1
        \<lparr>rb_cDirector = 40, mc_director_instance = 4, director_using_scene = [5, 0, 0, 9],
         journal = []\<rparr>)
     = Some \<lparr>rb_cDirector = 40, mc_director_instance = 4, director_using_scene = [5, 0, 0],
         journal = [Release 9, Call 1 Cc_popScene]\<rparr>"
  using pop_releases_and_removes_top [of
      "\<lparr>rb_cDirector = 40, mc_director_instance = 4, director_using_scene = [5, 0, 0, 9],
        journal = []\<rparr>" quiet_env 1]
  by (simp add: director_pop_effect quiet_env_def)

subsection \<open>C5: the shared accessor\<close>



subsection \<open>C6: the forwarding methods\<close>

text \<open>
  C6. Each of pause, resume, start_animation, stop_animation, origin, size,
  show_stats=, show_stats?, content_scale_factor, content_scale_factor= and glview, in
  every state and whether the engine answers or raises, leaves the vector of retained
  references (its entries and its length), the cached handle and the class object as
  they were; only the journal of foreign calls grows.
\<close>

theorem forwarding_methods_keep_state:
  assumes "m \<in> {Pause, Resume, Start_animation, Stop_animation, Origin, Size,
                 Show_stats_set val, Show_stats, Content_scale_factor,
                 Content_scale_factor_set scale, Glview}"
  shows "\<exists>st'. state_after (dispatch env rcv m st) = Some st'
     \<and> director_using_scene st' = director_using_scene st
     \<and> length (director_using_scene st') = length (director_using_scene st)
     \<and> mc_director_instance st' = mc_director_instance st
     \<and> rb_cDirector st' = rb_cDirector st"
  using assms
  by (auto simp: method_defs prim_defs Let_def split: sum.splits)

theorem forwarding_methods_keep_state_witness:
  "state_after (dispatch quiet_env 1 Glview
      \<lparr>rb_cDirector = 40, mc_director_instance = 48, director_using_scene = [7, 0, 0, 9],
       journal = []\<rparr>)
   = Some \<lparr>rb_cDirector = 40, mc_director_instance = 48, director_using_scene = [7, 0, 0, 9],
       journal = [Call 1 Cc_getOpenGLView, ObjectNew 0 32 0]\<rparr>"
  using forwarding_methods_keep_state [of Glview 0 0 quiet_env 1
      "\<lparr>rb_cDirector = 40, mc_director_instance = 48, director_using_scene = [7, 0, 0, 9],
       journal = []\<rparr>"]
  by (simp add: run_defs)

subsection \<open>C7: the slots of the vector\<close>

text \<open>
  C7. The vector starts with exactly three entries, all 0. A call that leaves the vector
  longer is a push. In every state push leaves a state, and the vector in it is the old
  one with the scene appended at the end. On a non-empty vector run and replace leave
  a state in which index 0 holds the scene and nothing else has changed, the length
  included, and pop leaves a state in which the last entry is gone. On the empty vector
  run, replace and pop index out of range and leave no state.
\<close>

theorem slot_discipline:
  "director_using_scene (static_init env) = [0, 0, 0]
     \<and> director_using_scene (boot env) = [0, 0, 0]
     \<and> (\<forall>st'. state_after (dispatch env rcv m st) = Some st'
            \<and> length (director_using_scene st) < length (director_using_scene st')
          \<longrightarrow> (\<exists>obj. m = Push obj))
     \<and> (\<exists>st'. state_after (dispatch env rcv (Push obj) st) = Some st'
            \<and> director_using_scene st' = director_using_scene st @ [obj])
     \<and> (director_using_scene st \<noteq> [] \<longrightarrow>
          (\<exists>st'. state_after (dispatch env rcv (Run obj) st) = Some st'
             \<and> director_using_scene st' = (director_using_scene st)[0 := obj]
             \<and> length (director_using_scene st') = length (director_using_scene st))
          \<and> (\<exists>st'. state_after (dispatch env rcv (Replace obj) st) = Some st'
             \<and> director_using_scene st' = (director_using_scene st)[0 := obj]
             \<and> length (director_using_scene st') = length (director_using_scene st))
          \<and> (\<exists>st'. state_after (dispatch env rcv Pop st) = Some st'
             \<and> director_using_scene st' = butlast (director_using_scene st)))
     \<and> (director_using_scene st = [] \<longrightarrow>
          state_after (dispatch env rcv (Run obj) st) = None
          \<and> state_after (dispatch env rcv (Replace obj) st) = None
          \<and> state_after (dispatch env rcv Pop st) = None)"
proof -
  have grow: "\<exists>obj. m = Push obj"
    if "state_after (dispatch env rcv m st) = Some st'"
      and "length (director_using_scene st) < length (director_using_scene st')" for st'
    using that dispatch_scenes[OF that(1)] by (cases m) auto
  have push: "\<exists>st'. state_after (dispatch env rcv (Push obj) st) = Some st'
            \<and> director_using_scene st' = director_using_scene st @ [obj]"
    by (simp add: director_push_effect)
  have indexed: "(\<exists>st'. state_after (dispatch env rcv (Run obj) st) = Some st'
             \<and> director_using_scene st' = (director_using_scene st)[0 := obj]
             \<and> length (director_using_scene st') = length (director_using_scene st))
          \<and> (\<exists>st'. state_after (dispatch env rcv (Replace obj) st) = Some st'
             \<and> director_using_scene st' = (director_using_scene st)[0 := obj]
             \<and> length (director_using_scene st') = length (director_using_scene st))
          \<and> (\<exists>st'. state_after (dispatch env rcv Pop st) = Some st'
             \<and> director_using_scene st' = butlast (director_using_scene st))"
    if "director_using_scene st \<noteq> []"
    using that by (simp add: director_run_effect director_replace_effect director_pop_effect)
  have undefined_on_empty: "state_after (dispatch env rcv (Run obj) st) = None
          \<and> state_after (dispatch env rcv (Replace obj) st) = None
          \<and> state_after (dispatch env rcv Pop st) = None"
    if "director_using_scene st = []"
    using that by (simp add: out_of_range)
  have init: "director_using_scene (static_init env) = [0, 0, 0]"
    by (simp add: static_init_def numeral_3_eq_3)
  from grow push indexed undefined_on_empty init show ?thesis
    by (simp add: boot_scenes)
qed

theorem slot_discipline_witness:
  "map_option director_using_scene (state_after (dispatch quiet_env 1 (Push 9)
      \<lparr>rb_cDirector = 40, mc_director_instance = 4, director_using_scene = [5, 0, 0],
       journal = []\<rparr>)) = Some [5, 0, 0, 9]
   \<and> map_option director_using_scene (state_after (dispatch quiet_env 1 Pop
      \<lparr>rb_cDirector = 40, mc_director_instance = 4, director_using_scene = [5, 0, 0],
       journal = []\<rparr>)) = Some [5, 0]
   \<and> map_option director_using_scene (state_after (dispatch quiet_env 1 (Run 9)
      \<lparr>rb_cDirector = 40, mc_director_instance = 4, director_using_scene = [5, 0, 0],
       journal = []\<rparr>)) = Some [9, 0, 0]
   \<and> map_option director_using_scene (state_after (dispatch quiet_env 1 (Replace 9)
      \<lparr>rb_cDirector = 40, mc_director_instance = 4, director_using_scene = [5, 0, 0],
       journal = []\<rparr>)) = Some [9, 0, 0]
   \<and> [5, 0, 0] \<noteq> ([] :: VALUE list)"
  using slot_discipline [of quiet_env 1 "Push 9"
      "\<lparr>rb_cDirector = 40, mc_director_instance = 4, director_using_scene = [5, 0, 0],
       journal = []\<rparr>" 9]
  by (simp add: run_defs)

subsection \<open>C8: no error of the binding's own\<close>




subsection \<open>C9: when pop is safe\<close>

text \<open>
  C9 as stated fails by one. After three pops and no push the number of prior pops, 3,
  does not exceed 3 + 0, yet the vector is empty and a fourth pop reads \<open>back()\<close> of an
  empty vector.
\<close>

theorem pop_unsafe_after_three_pops_counterexample:
  "run_calls quiet_env 1 [Pop, Pop, Pop] (boot quiet_env) =
     Some \<lparr>rb_cDirector = 40, mc_director_instance = 4, director_using_scene = [],
           journal = [Release 0, Call 1 Cc_popScene, Release 0, Call 1 Cc_popScene,
                      Release 0, Call 1 Cc_popScene]\<rparr>
   \<and> pops [Pop, Pop, Pop] \<le> 3 + pushes [Pop, Pop, Pop]
   \<and> director_pop quiet_env 1
        \<lparr>rb_cDirector = 40, mc_director_instance = 4, director_using_scene = [],
         journal = [Release 0, Call 1 Cc_popScene, Release 0, Call 1 Cc_popScene,
                    Release 0, Call 1 Cc_popScene]\<rparr> = Inl OutOfRange"
  by (simp add: run_defs)

text \<open>
  C9, amended. \<open>director_pop\<close> has no emptiness check: it stays clear of the
  out-of-range branch exactly when the vector is not empty. After a sequence of calls
  from the initial state (none of them out of range) the vector is not empty exactly
  when the number of prior pops is less than 3 plus the number of prior pushes.
\<close>

theorem pop_safe_iff_nonempty:
  assumes "run_calls env rcv ms (boot env) = Some st"
  shows "(director_pop env rcv st \<noteq> Inl OutOfRange \<longleftrightarrow> director_using_scene st \<noteq> [])
     \<and> (director_using_scene st \<noteq> [] \<longleftrightarrow> pops ms < 3 + pushes ms)"
proof -
  have "length (director_using_scene st) + pops ms = 3 + pushes ms"
    using run_calls_length[OF assms] by (simp add: boot_scenes)
  then have "director_using_scene st \<noteq> [] \<longleftrightarrow> pops ms < 3 + pushes ms"
    by (cases "director_using_scene st") auto
  then show ?thesis by (simp add: out_of_range_iff)
qed

theorem pop_safe_iff_nonempty_witness:
  "run_calls quiet_env 1 [Push 9, Pop] (boot quiet_env) =
     Some \<lparr>rb_cDirector = 40, mc_director_instance = 4, director_using_scene = [0, 0, 0],
           journal = [Retain 9, Call 1 (Cc_pushScene 9), Release 9, Call 1 Cc_popScene]\<rparr>
   \<and> pops [Push 9, Pop] < 3 + pushes [Push 9, Pop]
   \<and> director_pop quiet_env 1
        \<lparr>rb_cDirector = 40, mc_director_instance = 4, director_using_scene = [0, 0, 0],
         journal = [Retain 9, Call 1 (Cc_pushScene 9), Release 9, Call 1 Cc_popScene]\<rparr>
       \<noteq> Inl OutOfRange"
  using pop_safe_iff_nonempty [of quiet_env 1 "[Push 9, Pop]"
     "\<lparr>rb_cDirector = 40, mc_director_instance = 4, director_using_scene = [0, 0, 0],
           journal = [Retain 9, Call 1 (Cc_pushScene 9), Release 9, Call 1 Cc_popScene]\<rparr>"]
  by (simp add: run_defs)

subsection \<open>C10: end twice\<close>

text \<open>
  C10. In every state, \<open>end\<close> releases the entries that are not 0, in vector order, and
  leaves 0 in every slot. A second \<open>end\<close> right after it finds only zeros: the vector
  after the second call is the vector after the first, and the second call adds
  nothing to the journal but its own forwarded \<open>end\<close>, so it releases nothing.
\<close>

theorem end_twice_same_as_once:
  "\<exists>st1 st2. state_after (director_end env rcv st) = Some st1
     \<and> director_using_scene st1 = map (\<lambda>_. 0) (director_using_scene st)
     \<and> journal st1 = journal st
          @ map Release (filter (\<lambda>v. v \<noteq> 0) (director_using_scene st))
          @ [Call (DIRECTOR env rcv) Cc_end]
     \<and> state_after (director_end env rcv st1) = Some st2
     \<and> director_using_scene st2 = director_using_scene st1
     \<and> journal st2 = journal st1 @ [Call (DIRECTOR env rcv) Cc_end]
     \<and> mc_director_instance st2 = mc_director_instance st1"
  by (simp add: director_end_effect filter_empty_conv)

theorem end_twice_same_as_once_witness:
  "run_calls quiet_env 1 [End, End]
      \<lparr>rb_cDirector = 40, mc_director_instance = 48, director_using_scene = [7, 0, 0, 9],
       journal = []\<rparr>
   = Some \<lparr>rb_cDirector = 40, mc_director_instance = 48, director_using_scene = [0, 0, 0, 0],
       journal = [Release 7, Release 9, Call 1 Cc_end, Call 1 Cc_end]\<rparr>"
  using end_twice_same_as_once [of quiet_env 1
      "\<lparr>rb_cDirector = 40, mc_director_instance = 48, director_using_scene = [7, 0, 0, 9],
       journal = []\<rparr>"]
  by (simp add: run_defs)

end
